theory Spec2Isabelle
  imports Complex_Main
begin

section \<open>Python values and exceptions\<close>

text \<open>
  The program is one Python module, \<^verbatim>\<open>wrangler.py\<close>. Its records are dictionaries
  decoded from JSON, so a field may hold any JSON value. Strings are lists of
  8-bit characters; the character classes below are the ASCII part of Python's
  \<^verbatim>\<open>\s\<close>, \<^verbatim>\<open>\d\<close> and \<^verbatim>\<open>str.strip\<close>. A Python float is
  modelled by the real number it denotes (no rounding, no NaN, no infinity).
\<close>

datatype py_error =
    RuntimeError
  | NameError string
  | AttributeError
  | TypeError
  | ValueError
  | OverflowError

datatype pyval =
    PNone
  | PBool bool
  | PInt int
  | PFloat real
  | PStr string
  | PList "pyval list"
  | PDict "(string \<times> pyval) list"

text \<open>Truth value of an object, as \<^verbatim>\<open>x or y\<close> and \<^verbatim>\<open>if x\<close> test it.\<close>

fun truthy :: "pyval \<Rightarrow> bool" where
  "truthy PNone = False"
| "truthy (PBool b) = b"
| "truthy (PInt n) = (n \<noteq> 0)"
| "truthy (PFloat x) = (x \<noteq> 0)"
| "truthy (PStr s) = (s \<noteq> [])"
| "truthy (PList xs) = (xs \<noteq> [])"
| "truthy (PDict kvs) = (kvs \<noteq> [])"

definition py_or :: "pyval \<Rightarrow> pyval \<Rightarrow> pyval" where
  "py_or x y = (if truthy x then x else y)"

section \<open>Characters and the regular expressions of the module\<close>

definition is_space :: "char \<Rightarrow> bool" where
  "is_space c = (let n = (of_char c :: nat) in (9 \<le> n \<and> n \<le> 13) \<or> (28 \<le> n \<and> n \<le> 32))"

definition is_digit :: "char \<Rightarrow> bool" where
  "is_digit c = (let n = (of_char c :: nat) in 48 \<le> n \<and> n \<le> 57)"

definition digit_val :: "char \<Rightarrow> nat" where
  "digit_val c = of_char c - 48"

text \<open>\<^verbatim>\<open>int(s)\<close> on a string of decimal digits.\<close>

definition int_of_digits :: "string \<Rightarrow> nat" where
  "int_of_digits ds = foldl (\<lambda>a c. 10 * a + digit_val c) 0 ds"

definition strip_prefix :: "string \<Rightarrow> string \<Rightarrow> string option" where
  "strip_prefix p s = (if take (length p) s = p then Some (drop (length p) s) else None)"

text \<open>
  \<^verbatim>\<open>re.search(r"Pages:\s+(\d+)", out)\<close>. At one position the expression matches
  when the text reads \<^verbatim>\<open>Pages:\<close>, then at least one space, then at least one digit;
  both repetitions are greedy and spaces and digits are disjoint, so group 1 is the whole
  run of digits. \<^verbatim>\<open>search\<close> takes the leftmost position that matches.
\<close>

definition match_pages_at :: "string \<Rightarrow> string option" where
  "match_pages_at s =
     (case strip_prefix ''Pages:'' s of
        None \<Rightarrow> None
      | Some r \<Rightarrow>
          (let ws = takeWhile is_space r;
               ds = takeWhile is_digit (dropWhile is_space r)
           in if ws \<noteq> [] \<and> ds \<noteq> [] then Some ds else None))"

fun re_search_pages :: "string \<Rightarrow> string option" where
  "re_search_pages [] = match_pages_at []"
| "re_search_pages (c # cs) =
     (case match_pages_at (c # cs) of
        Some ds \<Rightarrow> Some ds
      | None \<Rightarrow> re_search_pages cs)"

text \<open>
  What the expression describes, stated without the matcher: the text contains
  \<^verbatim>\<open>Pages:\<close> followed by a non-empty run of spaces and a non-empty run of digits.
\<close>

definition has_pages_line :: "string \<Rightarrow> bool" where
  "has_pages_line out =
     (\<exists>a ws ds b. out = a @ ''Pages:'' @ ws @ ds @ b \<and>
        ws \<noteq> [] \<and> list_all is_space ws \<and> ds \<noteq> [] \<and> list_all is_digit ds)"

section \<open>External tools\<close>

text \<open>
  \<^verbatim>\<open>run(cmd)\<close> starts a process and returns its standard output, or raises
  \<^verbatim>\<open>RuntimeError\<close> when the exit status is not zero. The tools are not part of
  the module: the model takes them as a function from the command line to the result.
\<close>

type_synonym shell = "string list \<Rightarrow> py_error + string"


section \<open>Strings, paths and dates\<close>

definition lower_char :: "char \<Rightarrow> char" where
  "lower_char c = (let n = (of_char c :: nat) in if 65 \<le> n \<and> n \<le> 90 then char_of (n + 32) else c)"

definition lower_str :: "string \<Rightarrow> string" where
  "lower_str s = map lower_char s"

fun split_on :: "char \<Rightarrow> string \<Rightarrow> string list" where
  "split_on sep [] = [[]]"
| "split_on sep (c # cs) =
     (if c = sep then [] # split_on sep cs
      else (case split_on sep cs of
              p # ps \<Rightarrow> (c # p) # ps
            | [] \<Rightarrow> [[c]]))"

text \<open>
  \<^verbatim>\<open>pathlib.Path(p).name\<close> on a POSIX path: the last component, where empty
  components and \<^verbatim>\<open>.\<close> do not count; the empty string when there is none.
\<close>

definition path_name :: "string \<Rightarrow> string" where
  "path_name p =
     (let parts = filter (\<lambda>c. c \<noteq> [] \<and> c \<noteq> ''.'') (split_on CHR ''/'' p)
      in if parts = [] then [] else last parts)"

definition digit_char :: "nat \<Rightarrow> char" where
  "digit_char n = char_of (48 + n)"

function str_nat :: "nat \<Rightarrow> string" where
  "str_nat n = (if n < 10 then [digit_char n] else str_nat (n div 10) @ [digit_char (n mod 10)])"
  by pat_completeness auto
termination
  by (relation "measure id") auto

definition str_int :: "int \<Rightarrow> string" where
  "str_int i = (if i < 0 then CHR ''-'' # str_nat (nat (- i)) else str_nat (nat i))"

definition zero_pad :: "nat \<Rightarrow> string \<Rightarrow> string" where
  "zero_pad w s = replicate (w - length s) CHR ''0'' @ s"

record date =
  year :: nat
  month :: nat
  day :: nat

text \<open>\<^verbatim>\<open>date.isoformat()\<close>: \<^verbatim>\<open>YYYY-MM-DD\<close>.\<close>

definition isoformat :: "date \<Rightarrow> string" where
  "isoformat d =
     zero_pad 4 (str_nat (year d)) @ ''-'' @ zero_pad 2 (str_nat (month d)) @ ''-'' @
     zero_pad 2 (str_nat (day d))"

text \<open>
  The proleptic Gregorian ordinal of a date; \<^verbatim>\<open>(d - today).days\<close> is the difference
  of two ordinals.
\<close>

definition is_leap :: "nat \<Rightarrow> bool" where
  "is_leap y = (y mod 4 = 0 \<and> (y mod 100 \<noteq> 0 \<or> y mod 400 = 0))"

definition days_in_month :: "nat \<Rightarrow> nat \<Rightarrow> nat" where
  "days_in_month y m =
     (if m = 2 then (if is_leap y then 29 else 28)
      else if m = 4 \<or> m = 6 \<or> m = 9 \<or> m = 11 then 30 else 31)"

definition days_before_year :: "nat \<Rightarrow> nat" where
  "days_before_year y = (let p = y - 1 in p * 365 + p div 4 - p div 100 + p div 400)"

definition days_before_month :: "nat \<Rightarrow> nat \<Rightarrow> nat" where
  "days_before_month y m = sum_list (map (days_in_month y) [1..<m])"

definition toordinal :: "date \<Rightarrow> int" where
  "toordinal d = int (days_before_year (year d) + days_before_month (year d) (month d) + day d)"

section \<open>Names and libraries outside the module\<close>

text \<open>
  The first two lines of the module are its only imports:
  \<^verbatim>\<open>
  import os, sys, re, csv, json, subprocess, tempfile, pathlib, datetime
  from collections import defaultdict
  \<close>
  Together with the assignments and the \<^verbatim>\<open>def\<close>s of the file they are the names
  that a function body can look up. Reading any other name that is no builtin raises
  \<^verbatim>\<open>NameError\<close>.
\<close>

definition module_globals :: "string list" where
  "module_globals =
     [''os'', ''sys'', ''re'', ''csv'', ''json'', ''subprocess'', ''tempfile'', ''pathlib'',
      ''datetime'', ''defaultdict'', ''GEMINI_CMD'', ''GEMINI_MODEL'', ''run'', ''pdf_pages'',
      ''extract_page_text_or_image'', ''EXTRACT_SYSTEM'', ''SELF_CHECK_SYSTEM'',
      ''gemini_extract'', ''gemini_selfcheck'', ''safe_json_loads'', ''add_relative_due_by'',
      ''normalize_row'', ''append_rows'', ''write_summary_md'', ''aggregate_dashboard'',
      ''process_pdf'', ''sweep_folder'', ''QA_SYSTEM'', ''load_context'', ''qa_answer'', ''repl'']"

definition lookup_global :: "string list \<Rightarrow> string \<Rightarrow> 'a \<Rightarrow> py_error + 'a" where
  "lookup_global G name v = (if name \<in> set G then Inr v else Inl (NameError name))"

text \<open>
  What the libraries compute is not in the repository. The functions of the model take it
  as a record: \<open>float_of_str\<close> is the builtin \<^verbatim>\<open>float\<close> on a string
  (\<open>None\<close> when it raises \<^verbatim>\<open>ValueError\<close>), \<open>repr_of\<close> is the builtin
  \<^verbatim>\<open>str\<close> on a value that is no string, \<open>dateutil_parse s\<close> is
  \<^verbatim>\<open>dateutil.parser.parse(s).date()\<close> (\<open>None\<close> when it raises),
  \<open>relativedelta_add kw n d\<close> is \<^verbatim>\<open>d + dateutil.relativedelta.relativedelta(kw=n)\<close>,
  and \<open>json_loads\<close>, \<open>json_dumps\<close> are the functions of \<^verbatim>\<open>json\<close>
  (\<open>None\<close> when \<^verbatim>\<open>json.loads\<close> raises).
\<close>

record pylib =
  float_of_str :: "string \<Rightarrow> real option"
  repr_of :: "pyval \<Rightarrow> string"
  dateutil_parse :: "string \<Rightarrow> date option"
  relativedelta_add :: "string \<Rightarrow> nat \<Rightarrow> date \<Rightarrow> py_error + date"
  json_loads :: "string \<Rightarrow> pyval option"
  json_dumps :: "pyval \<Rightarrow> string"

definition py_str :: "pylib \<Rightarrow> pyval \<Rightarrow> string" where
  "py_str L v = (case v of PStr s \<Rightarrow> s | _ \<Rightarrow> repr_of L v)"

text \<open>
  The builtin \<^verbatim>\<open>float\<close>. An integer that rounds past the largest double,
  \<open>2^1024 - 2^971\<close>, raises \<^verbatim>\<open>OverflowError\<close>.
\<close>

definition py_float :: "pylib \<Rightarrow> pyval \<Rightarrow> py_error + real" where
  "py_float L v =
     (case v of
        PNone \<Rightarrow> Inl TypeError
      | PBool b \<Rightarrow> Inr (if b then 1 else 0)
      | PInt n \<Rightarrow> (if \<bar>n\<bar> < 2 ^ 1024 - 2 ^ 970 then Inr (real_of_int n) else Inl OverflowError)
      | PFloat x \<Rightarrow> Inr x
      | PStr s \<Rightarrow> (case float_of_str L s of None \<Rightarrow> Inl ValueError | Some x \<Rightarrow> Inr x)
      | PList xs \<Rightarrow> Inl TypeError
      | PDict kvs \<Rightarrow> Inl TypeError)"

text \<open>\<^verbatim>\<open>x.lower()\<close>: only a string has the method.\<close>

definition py_lower :: "pyval \<Rightarrow> py_error + string" where
  "py_lower v = (case v of PStr s \<Rightarrow> Inr (lower_str s) | _ \<Rightarrow> Inl AttributeError)"

text \<open>\<^verbatim>\<open>r.get(key)\<close> on a dictionary: a missing key gives \<^verbatim>\<open>None\<close>.\<close>

definition dict_get :: "(string \<times> pyval) list \<Rightarrow> string \<Rightarrow> pyval" where
  "dict_get kvs k = (case map_of kvs k of None \<Rightarrow> PNone | Some v \<Rightarrow> v)"

text \<open>\<^verbatim>\<open>dtp.parse(x).date()\<close>, the name \<^verbatim>\<open>dtp\<close> looked up first.\<close>

definition dtp_parse_date :: "string list \<Rightarrow> pylib \<Rightarrow> pyval \<Rightarrow> py_error + date" where
  "dtp_parse_date G L x =
     (case lookup_global G ''dtp'' (dateutil_parse L) of
        Inl e \<Rightarrow> Inl e
      | Inr parse \<Rightarrow>
          (case x of
             PStr s \<Rightarrow> (case parse s of None \<Rightarrow> Inl ValueError | Some d \<Rightarrow> Inr d)
           | _ \<Rightarrow> Inl TypeError))"

text \<open>\<^verbatim>\<open>base + relativedelta(kw=n)\<close>, the name \<^verbatim>\<open>relativedelta\<close> looked up first.\<close>

definition plus_relativedelta ::
  "string list \<Rightarrow> pylib \<Rightarrow> date \<Rightarrow> string \<Rightarrow> nat \<Rightarrow> py_error + date" where
  "plus_relativedelta G L base kw n =
     (case lookup_global G ''relativedelta'' (relativedelta_add L) of
        Inl e \<Rightarrow> Inl e
      | Inr rd \<Rightarrow> rd kw n base)"

section \<open>Normalizer\<close>

text \<open>
  \<^verbatim>\<open>re.search(r"in\s+(\d+)\s+(day|week|month|year)s?", tf, re.I)\<close>: the two groups
  of the leftmost match. The optional \<^verbatim>\<open>s\<close> belongs to no group.
\<close>

definition unit_prefix :: "string \<Rightarrow> string option" where
  "unit_prefix r =
     (if lower_str (take 3 r) = ''day'' then Some (take 3 r)
      else if lower_str (take 4 r) = ''week'' then Some (take 4 r)
      else if lower_str (take 5 r) = ''month'' then Some (take 5 r)
      else if lower_str (take 4 r) = ''year'' then Some (take 4 r)
      else None)"

definition match_in_at :: "string \<Rightarrow> (string \<times> string) option" where
  "match_in_at s =
     (if lower_str (take 2 s) = ''in'' then
        (let r = drop 2 s;
             ws1 = takeWhile is_space r;
             r1 = dropWhile is_space r;
             ds = takeWhile is_digit r1;
             r2 = dropWhile is_digit r1;
             ws2 = takeWhile is_space r2;
             r3 = dropWhile is_space r2
         in if ws1 \<noteq> [] \<and> ds \<noteq> [] \<and> ws2 \<noteq> [] then
              (case unit_prefix r3 of None \<Rightarrow> None | Some u \<Rightarrow> Some (ds, u))
            else None)
      else None)"

fun re_search_in :: "string \<Rightarrow> (string \<times> string) option" where
  "re_search_in [] = None"
| "re_search_in (c # cs) =
     (case match_in_at (c # cs) of
        Some g \<Rightarrow> Some g
      | None \<Rightarrow> re_search_in cs)"

text \<open>
  The dictionary that \<^verbatim>\<open>normalize_row\<close> builds has twelve fixed keys. The first eight
  hold whatever the candidate held; the last four have the type the code gives them.
\<close>

record row =
  patient_id :: pyval
  report_date :: pyval
  modality :: pyval
  body_part :: pyval
  finding :: pyval
  recommended_followup :: pyval
  timeframe :: pyval
  due_by :: pyval
  priority :: string
  source_pdf :: string
  page :: int
  confidence :: real

text \<open>
  \<^verbatim>\<open>
  def add_relative_due_by(row):
      if row.get("due_by") or not row.get("timeframe") or not row.get("report_date"):
          return row
      tf = str(row["timeframe"])
      try:
          base = dtp.parse(row["report_date"]).date()
      except Exception:
          return row
      m = re.search(r"in\s+(\d+)\s+(day|week|month|year)s?", tf, re.I)
      if not m: return row
      n, unit = int(m.group(1)), m.group(2).lower()
      if unit == "day": due = base + relativedelta(days=n)
      elif unit == "week": due = base + relativedelta(weeks=n)
      elif unit == "month": due = base + relativedelta(months=n)
      else: due = base + relativedelta(years=n)
      row["due_by"] = due.isoformat()
      return row
  \<close>
  \<open>G\<close> is the list of names bound in the module. The \<^verbatim>\<open>try\<close> catches every
  exception of the parse, the \<^verbatim>\<open>NameError\<close> of an unbound \<^verbatim>\<open>dtp\<close> included;
  nothing catches an exception of the addition.
\<close>

definition add_relative_due_by :: "string list \<Rightarrow> pylib \<Rightarrow> row \<Rightarrow> py_error + row" where
  "add_relative_due_by G L row =
     (if truthy (due_by row) \<or> \<not> truthy (timeframe row) \<or> \<not> truthy (report_date row)
      then Inr row
      else
        (let tf = py_str L (timeframe row) in
         case dtp_parse_date G L (report_date row) of
           Inl e \<Rightarrow> Inr row
         | Inr base \<Rightarrow>
             (case re_search_in tf of
                None \<Rightarrow> Inr row
              | Some (ds, g2) \<Rightarrow>
                  (let n = int_of_digits ds; unit = lower_str g2 in
                   case (if unit = ''day'' then plus_relativedelta G L base ''days'' n
                         else if unit = ''week'' then plus_relativedelta G L base ''weeks'' n
                         else if unit = ''month'' then plus_relativedelta G L base ''months'' n
                         else plus_relativedelta G L base ''years'' n) of
                     Inl e \<Rightarrow> Inl e
                   | Inr due \<Rightarrow> Inr (row\<lparr>due_by := PStr (isoformat due)\<rparr>)))))"

text \<open>
  \<^verbatim>\<open>
  def normalize_row(r, pdf, page):
      row = {
          "patient_id": r.get("patient_id"),
          "report_date": r.get("report_date"),
          "modality": r.get("modality") or "Other",
          "body_part": r.get("body_part") or "",
          "finding": r.get("finding") or "",
          "recommended_followup": r.get("recommended_followup"),
          "timeframe": r.get("timeframe"),
          "due_by": r.get("due_by"),
          "priority": (r.get("priority") or "low").lower(),
          "source_pdf": pathlib.Path(pdf).name,
          "page": page,
          "confidence": float(r.get("confidence") or 0.5),
      }
      return add_relative_due_by(row)
  \<close>
  Only a dictionary has \<^verbatim>\<open>get\<close>. The entries are evaluated in order, so a failing
  \<^verbatim>\<open>.lower()\<close> is raised before a failing \<^verbatim>\<open>float\<close>.
\<close>

definition normalize_row ::
  "string list \<Rightarrow> pylib \<Rightarrow> pyval \<Rightarrow> string \<Rightarrow> int \<Rightarrow> py_error + row" where
  "normalize_row G L r pdf pg =
     (case r of
        PDict kvs \<Rightarrow>
          (case py_lower (py_or (dict_get kvs ''priority'') (PStr ''low'')) of
             Inl e \<Rightarrow> Inl e
           | Inr prio \<Rightarrow>
               (case py_float L (py_or (dict_get kvs ''confidence'') (PFloat 0.5)) of
                  Inl e \<Rightarrow> Inl e
                | Inr conf \<Rightarrow>
                    add_relative_due_by G L
                      \<lparr>patient_id = dict_get kvs ''patient_id'',
                       report_date = dict_get kvs ''report_date'',
                       modality = py_or (dict_get kvs ''modality'') (PStr ''Other''),
                       body_part = py_or (dict_get kvs ''body_part'') (PStr []),
                       finding = py_or (dict_get kvs ''finding'') (PStr []),
                       recommended_followup = dict_get kvs ''recommended_followup'',
                       timeframe = dict_get kvs ''timeframe'',
                       due_by = dict_get kvs ''due_by'',
                       priority = prio,
                       source_pdf = path_name pdf,
                       page = pg,
                       confidence = conf\<rparr>))
      | _ \<Rightarrow> Inl AttributeError)"

text \<open>The emitted row is a dictionary again; this is the value a second call reads.\<close>

definition row_dict :: "row \<Rightarrow> pyval" where
  "row_dict w =
     PDict [(''patient_id'', patient_id w), (''report_date'', report_date w),
            (''modality'', modality w), (''body_part'', body_part w), (''finding'', finding w),
            (''recommended_followup'', recommended_followup w), (''timeframe'', timeframe w),
            (''due_by'', due_by w), (''priority'', PStr (priority w)),
            (''source_pdf'', PStr (source_pdf w)), (''page'', PInt (page w)),
            (''confidence'', PFloat (confidence w))]"

section \<open>A library instance for evaluating examples\<close>

text \<open>
  The general theorems below hold for every \<open>pylib\<close>. To evaluate the functions of the
  module at a concrete input, the examples use the instance \<open>sample_lib\<close>. Each of its
  functions is the Python function on a stated fragment of its inputs and fails outside
  it; the examples only use inputs inside the fragments.
\<close>

text \<open>\<^verbatim>\<open>s.strip()\<close>.\<close>

definition py_strip :: "string \<Rightarrow> string" where
  "py_strip s = rev (dropWhile is_space (rev (dropWhile is_space s)))"

text \<open>
  \<^verbatim>\<open>float(s)\<close> on plain decimal literals: optional surrounding space, an optional
  sign, digits with an optional fraction. (Python also reads exponents, underscores,
  \<^verbatim>\<open>inf\<close> and \<^verbatim>\<open>nan\<close>.)
\<close>

definition float_of_decimal :: "string \<Rightarrow> real option" where
  "float_of_decimal s =
     (let t = py_strip s;
          neg = (t \<noteq> [] \<and> hd t = CHR ''-'');
          u = (if t \<noteq> [] \<and> (hd t = CHR ''-'' \<or> hd t = CHR ''+'') then tl t else t);
          ip = takeWhile is_digit u;
          r = dropWhile is_digit u;
          fp = (if r = [] then [] else tl r);
          v = real (int_of_digits ip) + real (int_of_digits fp) / 10 ^ length fp
      in if (r = [] \<and> ip \<noteq> []) \<or>
            (r \<noteq> [] \<and> hd r = CHR ''.'' \<and> list_all is_digit fp \<and> (ip \<noteq> [] \<or> fp \<noteq> []))
         then Some (if neg then - v else v)
         else None)"

text \<open>
  \<^verbatim>\<open>repr\<close> of a float that is a short decimal: the integer part, a point and the
  digits of the fraction (at most 17, at least one).
\<close>

fun frac_digits :: "nat \<Rightarrow> real \<Rightarrow> string" where
  "frac_digits 0 f = []"
| "frac_digits (Suc k) f =
     (if f = 0 then []
      else (let d = nat \<lfloor>f * 10\<rfloor> in digit_char d # frac_digits k (f * 10 - real d)))"

definition float_repr :: "real \<Rightarrow> string" where
  "float_repr x =
     (let a = \<bar>x\<bar>; ip = nat \<lfloor>a\<rfloor>; fd = frac_digits 17 (a - real ip)
      in (if x < 0 then ''-'' else []) @ str_nat ip @ ''.'' @ (if fd = [] then ''0'' else fd))"

text \<open>
  \<^verbatim>\<open>str(v)\<close> of a value that is no string. A string inside a list or a dictionary is
  written between single quotes without escapes (Python escapes quotes, backslashes and
  control characters).
\<close>

fun join_sep :: "string \<Rightarrow> string list \<Rightarrow> string" where
  "join_sep sep [] = []"
| "join_sep sep [x] = x"
| "join_sep sep (x # y # ys) = x @ sep @ join_sep sep (y # ys)"

fun py_repr :: "pyval \<Rightarrow> string" where
  "py_repr PNone = ''None''"
| "py_repr (PBool b) = (if b then ''True'' else ''False'')"
| "py_repr (PInt i) = str_int i"
| "py_repr (PFloat x) = float_repr x"
| "py_repr (PStr s) = [CHR 0x27] @ s @ [CHR 0x27]"
| "py_repr (PList xs) = ''['' @ join_sep '', '' (map py_repr xs) @ '']''"
| "py_repr (PDict kvs) =
     ''{'' @ join_sep '', '' (map (\<lambda>(k, v). [CHR 0x27] @ k @ [CHR 0x27] @ '': '' @ py_repr v) kvs) @ ''}''"

text \<open>
  The day with a given ordinal, as \<^verbatim>\<open>datetime.date.fromordinal\<close> computes it.
\<close>

definition fromordinal :: "nat \<Rightarrow> date" where
  "fromordinal k =
     (let n = k - 1;
          n400 = n div 146097; n = n mod 146097;
          n100 = n div 36524; n = n mod 36524;
          n4 = n div 1461; n = n mod 1461;
          n1 = n div 365; n = n mod 365;
          y = n400 * 400 + 1 + n100 * 100 + n4 * 4 + n1
      in if n1 = 4 \<or> n100 = 4 then \<lparr>year = y - 1, month = 12, day = 31\<rparr>
         else
           (let m0 = (n + 50) div 32;
                p0 = days_before_month y m0;
                m = (if p0 > n then m0 - 1 else m0);
                p = (if p0 > n then p0 - days_in_month y (m0 - 1) else p0)
            in \<lparr>year = y, month = m, day = n - p + 1\<rparr>))"

text \<open>
  \<^verbatim>\<open>d + relativedelta(kw=n)\<close> of dateutil for \<open>n \<ge> 0\<close>: days and weeks count days;
  months and years keep the day of the month, cut down to the last day of the target month.
  A result after year 9999 raises.
\<close>

definition add_months :: "date \<Rightarrow> nat \<Rightarrow> py_error + date" where
  "add_months d n =
     (let t = year d * 12 + (month d - 1) + n;
          y = t div 12;
          m = t mod 12 + 1
      in if y > 9999 then Inl ValueError
         else Inr \<lparr>year = y, month = m, day = min (day d) (days_in_month y m)\<rparr>)"

definition add_days :: "date \<Rightarrow> nat \<Rightarrow> py_error + date" where
  "add_days d n =
     (let k = nat (toordinal d) + n
      in if k > 3652059 then Inl OverflowError else Inr (fromordinal k))"

definition dateutil_relativedelta_add :: "string \<Rightarrow> nat \<Rightarrow> date \<Rightarrow> py_error + date" where
  "dateutil_relativedelta_add kw n d =
     (if kw = ''days'' then add_days d n
      else if kw = ''weeks'' then add_days d (7 * n)
      else if kw = ''months'' then add_months d n
      else if kw = ''years'' then add_months d (12 * n)
      else Inl TypeError)"

text \<open>
  \<^verbatim>\<open>dateutil.parser.parse(s).date()\<close> on the form \<^verbatim>\<open>YYYY-MM-DD\<close>. (dateutil also
  reads many other forms.)
\<close>

definition parse_iso_date :: "string \<Rightarrow> date option" where
  "parse_iso_date s =
     (let y = int_of_digits (take 4 s);
          m = int_of_digits (take 2 (drop 5 s));
          d = int_of_digits (take 2 (drop 8 s))
      in if length s = 10 \<and> s ! 4 = CHR ''-'' \<and> s ! 7 = CHR ''-'' \<and>
            list_all is_digit (take 4 s @ take 2 (drop 5 s) @ take 2 (drop 8 s)) \<and>
            1 \<le> y \<and> 1 \<le> m \<and> m \<le> 12 \<and> 1 \<le> d \<and> d \<le> days_in_month y m
         then Some \<lparr>year = y, month = m, day = d\<rparr>
         else None)"

text \<open>
  \<^verbatim>\<open>json.loads\<close> on JSON without \<^verbatim>\<open>\u\<close> escapes and without
  \<^verbatim>\<open>NaN\<close> and \<^verbatim>\<open>Infinity\<close>. The parser descends with a bound on the number of
  nested calls; \<open>json_loads_text\<close> starts it with a bound that the length of the text
  never exceeds. A key that occurs twice keeps its first place and its last value.
\<close>

definition json_ws :: "char \<Rightarrow> bool" where
  "json_ws c = (c = CHR '' '' \<or> c = CHR 0x09 \<or> c = CHR 0x0A \<or> c = CHR 0x0D)"

definition skip_ws :: "string \<Rightarrow> string" where
  "skip_ws s = dropWhile json_ws s"

definition json_escape :: "char \<Rightarrow> char option" where
  "json_escape e =
     (if e = CHR 0x22 \<or> e = CHR 0x5C \<or> e = CHR ''/'' then Some e
      else if e = CHR ''b'' then Some (CHR 0x08)
      else if e = CHR ''f'' then Some (CHR 0x0C)
      else if e = CHR ''n'' then Some (CHR 0x0A)
      else if e = CHR ''r'' then Some (CHR 0x0D)
      else if e = CHR ''t'' then Some (CHR 0x09)
      else None)"

fun json_string :: "string \<Rightarrow> (string \<times> string) option" where
  "json_string [] = None"
| "json_string [c] = (if c = CHR 0x22 then Some ([], []) else None)"
| "json_string (c # e # r) =
     (if c = CHR 0x22 then Some ([], e # r)
      else if c = CHR 0x5C then
        (case json_escape e of
           None \<Rightarrow> None
         | Some ch \<Rightarrow>
             (case json_string r of
                None \<Rightarrow> None
              | Some (s, rest) \<Rightarrow> Some (ch # s, rest)))
      else if (of_char c :: nat) < 32 then None
      else (case json_string (e # r) of
              None \<Rightarrow> None
            | Some (s, rest) \<Rightarrow> Some (c # s, rest)))"

definition json_exponent :: "string \<Rightarrow> (int \<times> string) option" where
  "json_exponent s =
     (if s \<noteq> [] \<and> (hd s = CHR ''e'' \<or> hd s = CHR ''E'') then
        (let t = tl s;
             neg = (t \<noteq> [] \<and> hd t = CHR ''-'');
             u = (if t \<noteq> [] \<and> (hd t = CHR ''-'' \<or> hd t = CHR ''+'') then tl t else t);
             ds = takeWhile is_digit u
         in if ds = [] then None
            else Some (if neg then - int (int_of_digits ds) else int (int_of_digits ds),
                       dropWhile is_digit u))
      else None)"

definition scale10 :: "real \<Rightarrow> int \<Rightarrow> real" where
  "scale10 x e = (if 0 \<le> e then x * 10 ^ nat e else x / 10 ^ nat (- e))"

definition json_number :: "string \<Rightarrow> (pyval \<times> string) option" where
  "json_number s =
     (let neg = (s \<noteq> [] \<and> hd s = CHR ''-'');
          u = (if neg then tl s else s);
          run = takeWhile is_digit u;
          ip = (if run \<noteq> [] \<and> hd run = CHR ''0'' then ''0'' else run);
          r = drop (length ip) u;
          fp = (if r \<noteq> [] \<and> hd r = CHR ''.'' then takeWhile is_digit (tl r) else []);
          r' = (if fp = [] then r else drop (Suc (length fp)) r);
          m = real (int_of_digits ip) + real (int_of_digits fp) / 10 ^ length fp;
          sm = (if neg then - m else m)
      in if ip = [] then None
         else (case json_exponent r' of
                 Some (e, rest) \<Rightarrow> Some (PFloat (scale10 sm e), rest)
               | None \<Rightarrow>
                   if fp = [] then
                     Some (PInt (if neg then - int (int_of_digits ip) else int (int_of_digits ip)), r')
                   else Some (PFloat sm, r')))"

definition dict_set :: "(string \<times> pyval) list \<Rightarrow> string \<Rightarrow> pyval \<Rightarrow> (string \<times> pyval) list" where
  "dict_set kvs k v =
     (if k \<in> fst ` set kvs then map (\<lambda>(k', v'). if k' = k then (k', v) else (k', v')) kvs
      else kvs @ [(k, v)])"

definition dict_of_members :: "(string \<times> pyval) list \<Rightarrow> (string \<times> pyval) list" where
  "dict_of_members kvs = foldl (\<lambda>acc (k, v). dict_set acc k v) [] kvs"

fun json_value :: "nat \<Rightarrow> string \<Rightarrow> (pyval \<times> string) option"
  and json_elems :: "nat \<Rightarrow> string \<Rightarrow> (pyval list \<times> string) option"
  and json_members :: "nat \<Rightarrow> string \<Rightarrow> ((string \<times> pyval) list \<times> string) option" where
  "json_value 0 s = None"
| "json_value (Suc k) s =
     (let t = skip_ws s in
      if t = [] then None
      else if hd t = CHR ''['' then
        (let u = skip_ws (tl t) in
         if u \<noteq> [] \<and> hd u = CHR '']'' then Some (PList [], tl u)
         else (case json_elems k u of
                 None \<Rightarrow> None
               | Some (vs, r) \<Rightarrow> Some (PList vs, r)))
      else if hd t = CHR ''{'' then
        (let u = skip_ws (tl t) in
         if u \<noteq> [] \<and> hd u = CHR ''}'' then Some (PDict [], tl u)
         else (case json_members k u of
                 None \<Rightarrow> None
               | Some (kvs, r) \<Rightarrow> Some (PDict (dict_of_members kvs), r)))
      else if hd t = CHR 0x22 then
        (case json_string (tl t) of
           None \<Rightarrow> None
         | Some (str, r) \<Rightarrow> Some (PStr str, r))
      else if take 4 t = ''null'' then Some (PNone, drop 4 t)
      else if take 4 t = ''true'' then Some (PBool True, drop 4 t)
      else if take 5 t = ''false'' then Some (PBool False, drop 5 t)
      else json_number t)"
| "json_elems 0 s = None"
| "json_elems (Suc k) s =
     (case json_value k s of
        None \<Rightarrow> None
      | Some (v, r) \<Rightarrow>
          (let t = skip_ws r in
           if t = [] then None
           else if hd t = CHR '','' then
             (case json_elems k (tl t) of
                None \<Rightarrow> None
              | Some (vs, r') \<Rightarrow> Some (v # vs, r'))
           else if hd t = CHR '']'' then Some ([v], tl t)
           else None))"
| "json_members 0 s = None"
| "json_members (Suc k) s =
     (let t = skip_ws s in
      if t = [] \<or> hd t \<noteq> CHR 0x22 then None
      else
        (case json_string (tl t) of
           None \<Rightarrow> None
         | Some (key, r) \<Rightarrow>
             (let u = skip_ws r in
              if u = [] \<or> hd u \<noteq> CHR '':'' then None
              else
                (case json_value k (tl u) of
                   None \<Rightarrow> None
                 | Some (v, r') \<Rightarrow>
                     (let t' = skip_ws r' in
                      if t' = [] then None
                      else if hd t' = CHR '','' then
                        (case json_members k (tl t') of
                           None \<Rightarrow> None
                         | Some (kvs, r'') \<Rightarrow> Some ((key, v) # kvs, r''))
                      else if hd t' = CHR ''}'' then Some ([(key, v)], tl t')
                      else None)))))"

definition json_loads_text :: "string \<Rightarrow> pyval option" where
  "json_loads_text s =
     (case json_value (2 * length s + 2) s of
        None \<Rightarrow> None
      | Some (v, r) \<Rightarrow> if skip_ws r = [] then Some v else None)"

text \<open>
  \<^verbatim>\<open>json.dumps\<close> with its default separators, for ASCII strings whose only
  characters to escape are the quote, the backslash, newline, return and tab.
\<close>

definition json_quote :: "string \<Rightarrow> string" where
  "json_quote s =
     [CHR 0x22] @
     concat (map (\<lambda>c. if c = CHR 0x22 then [CHR 0x5C, CHR 0x22]
                       else if c = CHR 0x5C then [CHR 0x5C, CHR 0x5C]
                       else if c = CHR 0x0A then [CHR 0x5C, CHR ''n'']
                       else if c = CHR 0x0D then [CHR 0x5C, CHR ''r'']
                       else if c = CHR 0x09 then [CHR 0x5C, CHR ''t'']
                       else [c]) s) @
     [CHR 0x22]"

fun json_dumps_text :: "pyval \<Rightarrow> string" where
  "json_dumps_text PNone = ''null''"
| "json_dumps_text (PBool b) = (if b then ''true'' else ''false'')"
| "json_dumps_text (PInt i) = str_int i"
| "json_dumps_text (PFloat x) = float_repr x"
| "json_dumps_text (PStr s) = json_quote s"
| "json_dumps_text (PList xs) = ''['' @ join_sep '', '' (map json_dumps_text xs) @ '']''"
| "json_dumps_text (PDict kvs) =
     ''{'' @ join_sep '', '' (map (\<lambda>(k, v). json_quote k @ '': '' @ json_dumps_text v) kvs) @ ''}''"

definition sample_lib :: pylib where
  "sample_lib =
     \<lparr>float_of_str = float_of_decimal,
      repr_of = py_repr,
      dateutil_parse = parse_iso_date,
      relativedelta_add = dateutil_relativedelta_add,
      json_loads = json_loads_text,
      json_dumps = json_dumps_text\<rparr>"



section \<open>Page materializer\<close>

text \<open>
  \<^verbatim>\<open>pathlib.Path(p).stem\<close>: the name without its last suffix; a dot at the start or
  at the end of the name begins no suffix.
\<close>

definition path_stem :: "string \<Rightarrow> string" where
  "path_stem p =
     (let name = path_name p;
          i = length name - length (takeWhile (\<lambda>c. c \<noteq> CHR ''.'') (rev name)) - 1
      in if CHR ''.'' \<in> set name \<and> 0 < i \<and> i < length name - 1 then take i name else name)"

text \<open>\<^verbatim>\<open>os.path.join(a, b)\<close> on POSIX.\<close>

definition path_join :: "string \<Rightarrow> string \<Rightarrow> string" where
  "path_join a b =
     (if b \<noteq> [] \<and> hd b = CHR ''/'' then b
      else if a = [] \<or> last a = CHR ''/'' then a @ b
      else a @ ''/'' @ b)"

text \<open>
  \<^verbatim>\<open>
  def extract_page_text_or_image(pdf_path, page_idx):
      txt = run(["pdftotext", "-f", str(page_idx), "-l", str(page_idx), pdf_path, "-"])
      if len(txt.strip()) >= 180:
          return txt, None
      # fallback: image + OCR
      tmpdir = tempfile.gettempdir()
      stem = pathlib.Path(pdf_path).stem
      base = os.path.join(tmpdir, f"{stem}-p{page_idx}")
      run(["pdftoppm", "-f", str(page_idx), "-l", str(page_idx), "-png", pdf_path, base])
      img_path = f"{base}-1.png"
      ocr = run(["tesseract", img_path, "stdout"])
      return (ocr if len(ocr.strip())>0 else ""), img_path
  \<close>
  The model returns the commands that were run, in order, beside the result, so that a
  theorem can say which tools were invoked.
\<close>

definition pdftotext_cmd :: "string \<Rightarrow> int \<Rightarrow> string list" where
  "pdftotext_cmd pdf_path page_idx =
     [''pdftotext'', ''-f'', str_int page_idx, ''-l'', str_int page_idx, pdf_path, ''-'']"

definition pdftoppm_cmd :: "string \<Rightarrow> int \<Rightarrow> string \<Rightarrow> string list" where
  "pdftoppm_cmd pdf_path page_idx base =
     [''pdftoppm'', ''-f'', str_int page_idx, ''-l'', str_int page_idx, ''-png'', pdf_path, base]"

definition extract_page_text_or_image ::
  "shell \<Rightarrow> string \<Rightarrow> string \<Rightarrow> int \<Rightarrow> string list list \<times> (py_error + string \<times> string option)" where
  "extract_page_text_or_image run tmpdir pdf_path page_idx =
     (let c1 = pdftotext_cmd pdf_path page_idx in
      case run c1 of
        Inl e \<Rightarrow> ([c1], Inl e)
      | Inr txt \<Rightarrow>
          if length (py_strip txt) \<ge> 180 then ([c1], Inr (txt, None))
          else
            (let stem = path_stem pdf_path;
                 base = path_join tmpdir (stem @ ''-p'' @ str_int page_idx);
                 c2 = pdftoppm_cmd pdf_path page_idx base
             in case run c2 of
                  Inl e \<Rightarrow> ([c1, c2], Inl e)
                | Inr png \<Rightarrow>
                    (let img_path = base @ ''-1.png'';
                         c3 = [''tesseract'', img_path, ''stdout'']
                     in case run c3 of
                          Inl e \<Rightarrow> ([c1, c2, c3], Inl e)
                        | Inr ocr \<Rightarrow>
                            ([c1, c2, c3],
                             Inr (if length (py_strip ocr) > 0 then ocr else [], Some img_path)))))"


section \<open>The two model passes and the page loop\<close>




text \<open>
  \<^verbatim>\<open>re.search(r"(\[.*\])", s, re.DOTALL)\<close>: the repetition is greedy and the dot
  matches every character, so the match runs from the first \<^verbatim>\<open>[\<close> to the last
  \<^verbatim>\<open>]\<close> after it.
\<close>

definition re_search_brackets :: "string \<Rightarrow> string option" where
  "re_search_brackets s =
     (let r = dropWhile (\<lambda>c. c \<noteq> CHR ''['') s in
      if r = [] then None
      else
        (let body = rev (dropWhile (\<lambda>c. c \<noteq> CHR '']'') (rev (tl r))) in
         if body = [] then None else Some (CHR ''['' # body)))"

text \<open>
  \<^verbatim>\<open>
  def safe_json_loads(s):
      try:
          return json.loads(s)
      except Exception:
          m = re.search(r"(\[.*\])", s or "", re.DOTALL)
          if m:
              try: return json.loads(m.group(1))
              except Exception: return []
          return []
  \<close>
\<close>

definition safe_json_loads :: "pylib \<Rightarrow> string \<Rightarrow> pyval" where
  "safe_json_loads L s =
     (case json_loads L s of
        Some v \<Rightarrow> v
      | None \<Rightarrow>
          (case re_search_brackets s of
             Some g \<Rightarrow> (case json_loads L g of Some v \<Rightarrow> v | None \<Rightarrow> PList [])
           | None \<Rightarrow> PList []))"






section \<open>Result table and rollup\<close>

text \<open>
  \<^verbatim>\<open>f"{x:.2f}"\<close>: the number rounded to hundredths (a tie goes to the even digit),
  with a sign, the integer part, a point and exactly two digits.
\<close>

definition format_2f :: "real \<Rightarrow> string" where
  "format_2f x =
     (let h = \<bar>x\<bar> * 100;
          f = nat \<lfloor>h\<rfloor>;
          r = h - real f;
          q = (if r > 1 / 2 \<or> (r = 1 / 2 \<and> odd f) then f + 1 else f)
      in (if x < 0 then ''-'' else []) @ str_nat (q div 100) @ ''.'' @
         [digit_char (q div 10 mod 10), digit_char (q mod 10)])"

text \<open>
  One record of \<^verbatim>\<open>csv.writer\<close> in its default dialect: a field that holds a comma, a
  quote, a return or a newline is quoted, with its quotes doubled; the record ends with
  return and newline.
\<close>

definition csv_field :: "string \<Rightarrow> string" where
  "csv_field s =
     (if (\<exists>c \<in> set s. c = CHR '','' \<or> c = CHR 0x22 \<or> c = CHR 0x0D \<or> c = CHR 0x0A)
      then [CHR 0x22] @ concat (map (\<lambda>c. if c = CHR 0x22 then [c, c] else [c]) s) @ [CHR 0x22]
      else s)"

definition csv_record :: "string list \<Rightarrow> string" where
  "csv_record fs = join_sep '','' (map csv_field fs) @ [CHR 0x0D, CHR 0x0A]"

text \<open>
  \<^verbatim>\<open>
  def append_rows(csv_path, rows):
      with open(csv_path, "a", newline="") as f:
          w = csv.writer(f)
          for r in rows:
              w.writerow([
                  r["patient_id"] or "",
                  r["report_date"] or "",
                  r["modality"],
                  r["body_part"],
                  r["finding"],
                  r["recommended_followup"] or "",
                  r["timeframe"] or "",
                  r["due_by"] or "",
                  r["priority"],
                  r["source_pdf"],
                  r["page"],
                  f"{float(r['confidence']):.2f}",
              ])
  \<close>
  The file is \<open>None\<close> when it does not exist; opening it for appending creates it empty.
  The writer turns a field that is no string into text with \<^verbatim>\<open>str\<close>.
\<close>

definition row_fields :: "pylib \<Rightarrow> row \<Rightarrow> string list" where
  "row_fields L r =
     [py_str L (py_or (patient_id r) (PStr [])),
      py_str L (py_or (report_date r) (PStr [])),
      py_str L (modality r),
      py_str L (body_part r),
      py_str L (finding r),
      py_str L (py_or (recommended_followup r) (PStr [])),
      py_str L (py_or (timeframe r) (PStr [])),
      py_str L (py_or (due_by r) (PStr [])),
      priority r,
      source_pdf r,
      str_int (page r),
      format_2f (confidence r)]"

definition append_rows :: "pylib \<Rightarrow> string option \<Rightarrow> row list \<Rightarrow> string option" where
  "append_rows L file rows =
     Some ((case file of None \<Rightarrow> [] | Some old \<Rightarrow> old) @ concat (map (\<lambda>r. csv_record (row_fields L r)) rows))"

text \<open>The columns that the specification names, in its order, as a header record would list them.\<close>

definition header_fields :: "string list" where
  "header_fields =
     [''patient_id'', ''report_date'', ''modality'', ''body_part'', ''finding'',
      ''recommended_followup'', ''timeframe'', ''due_by'', ''priority'', ''source_document'',
      ''page'', ''confidence'']"

text \<open>
  \<^verbatim>\<open>
  def aggregate_dashboard(csv_path):
      stats = {"total_rows":0,"due_within_30":0,"by_priority":{},"by_modality":{}}
      try:
          import pandas as pd
          df = pd.read_csv(csv_path)
          stats["total_rows"] = int(df.shape[0])
          today = datetime.date.today()
          def within_30(x):
              try:
                  d = dtp.parse(str(x)).date()
                  delta = (d - today).days
                  return -365 <= delta <= 30
              except Exception:
                  return False
          if "due_by" in df.columns:
              stats["due_within_30"] = int(df["due_by"].apply(within_30).sum())
          stats["by_priority"] = df["priority"].value_counts(dropna=False).to_dict() if "priority" in df.columns else {}
          stats["by_modality"] = df["modality"].value_counts(dropna=False).to_dict() if "modality" in df.columns else {}
      except Exception:
          pass
      pathlib.Path("out/risk_dashboard.json").write_text(json.dumps(stats, indent=2))
  \<close>
  pandas is outside the repository: the model takes what \<^verbatim>\<open>pd.read_csv\<close> returns, a
  frame with its column names and its rows, or the exception of the import or of the read.
\<close>

record dataframe =
  columns :: "string list"
  cells :: "pyval list list"

record stats =
  total_rows :: nat
  due_within_30 :: nat
  by_priority :: "(pyval \<times> nat) list"
  by_modality :: "(pyval \<times> nat) list"

definition column :: "dataframe \<Rightarrow> string \<Rightarrow> pyval list" where
  "column df name =
     (let i = length (takeWhile (\<lambda>c. c \<noteq> name) (columns df))
      in map (\<lambda>r. if i < length r then r ! i else PNone) (cells df))"

definition value_counts :: "pyval list \<Rightarrow> (pyval \<times> nat) list" where
  "value_counts xs = map (\<lambda>v. (v, count_list xs v)) (remdups xs)"

definition within_30 :: "string list \<Rightarrow> pylib \<Rightarrow> date \<Rightarrow> pyval \<Rightarrow> bool" where
  "within_30 G L today x =
     (case dtp_parse_date G L (PStr (py_str L x)) of
        Inl e \<Rightarrow> False
      | Inr d \<Rightarrow> (let delta = toordinal d - toordinal today in - 365 \<le> delta \<and> delta \<le> 30))"

definition aggregate_dashboard ::
  "string list \<Rightarrow> pylib \<Rightarrow> date \<Rightarrow> py_error + dataframe \<Rightarrow> stats" where
  "aggregate_dashboard G L today read_csv =
     (case read_csv of
        Inl e \<Rightarrow> \<lparr>total_rows = 0, due_within_30 = 0, by_priority = [], by_modality = []\<rparr>
      | Inr df \<Rightarrow>
          \<lparr>total_rows = length (cells df),
           due_within_30 =
             (if ''due_by'' \<in> set (columns df)
              then length (filter (within_30 G L today) (column df ''due_by''))
              else 0),
           by_priority =
             (if ''priority'' \<in> set (columns df) then value_counts (column df ''priority'') else []),
           by_modality =
             (if ''modality'' \<in> set (columns df) then value_counts (column df ''modality'') else [])\<rparr>)"

section \<open>Page count\<close>

lemma strip_prefix_Some: "strip_prefix p s = Some r \<Longrightarrow> s = p @ r"
  unfolding strip_prefix_def
  by (metis append_take_drop_id option.distinct(1) option.inject)

lemma match_pages_at_sound:
  assumes "match_pages_at s = Some ds"
  shows "\<exists>ws b. s = ''Pages:'' @ ws @ ds @ b \<and> ws \<noteq> [] \<and> list_all is_space ws
           \<and> ds \<noteq> [] \<and> list_all is_digit ds"
proof -
  from assms obtain r where r: "strip_prefix ''Pages:'' s = Some r"
    by (auto simp: match_pages_at_def split: option.splits)
  let ?ws = "takeWhile is_space r"
  let ?r' = "dropWhile is_space r"
  let ?b = "dropWhile is_digit ?r'"
  from assms r have ds: "ds = takeWhile is_digit ?r'" and ne: "?ws \<noteq> []" "ds \<noteq> []"
    by (auto simp: match_pages_at_def Let_def split: if_splits)
  have "r = ?ws @ ds @ ?b"
    by (simp add: ds)
  with strip_prefix_Some [OF r] have "s = ''Pages:'' @ ?ws @ ds @ ?b"
    by simp
  moreover have "list_all is_space ?ws"
    by (simp add: list_all_iff) (meson set_takeWhileD)
  moreover have "list_all is_digit ds"
    unfolding ds by (simp add: list_all_iff) (meson set_takeWhileD)
  ultimately show ?thesis
    using ne by blast
qed

lemma re_search_pages_sound: "re_search_pages s = Some ds \<Longrightarrow> has_pages_line s"
proof (induction s)
  case Nil
  then show ?case
    by (simp add: match_pages_at_def strip_prefix_def)
next
  case (Cons c cs)
  show ?case
  proof (cases "match_pages_at (c # cs)")
    case None
    with Cons.prems have "re_search_pages cs = Some ds"
      by simp
    then have "has_pages_line cs"
      by (rule Cons.IH)
    then obtain a ws ds' b where "cs = a @ ''Pages:'' @ ws @ ds' @ b"
      and "ws \<noteq> []" "list_all is_space ws" "ds' \<noteq> []" "list_all is_digit ds'"
      unfolding has_pages_line_def by blast
    then have "c # cs = (c # a) @ ''Pages:'' @ ws @ ds' @ b \<and> ws \<noteq> [] \<and> list_all is_space ws
        \<and> ds' \<noteq> [] \<and> list_all is_digit ds'"
      by simp
    then show ?thesis
      unfolding has_pages_line_def by blast
  next
    case (Some ds')
    from match_pages_at_sound [OF Some] obtain ws b where
      "c # cs = [] @ ''Pages:'' @ ws @ ds' @ b \<and> ws \<noteq> [] \<and> list_all is_space ws
        \<and> ds' \<noteq> [] \<and> list_all is_digit ds'"
      by auto
    then show ?thesis
      unfolding has_pages_line_def by blast
  qed
qed

lemma re_search_pages_None: "\<not> has_pages_line s \<Longrightarrow> re_search_pages s = None"
  using re_search_pages_sound by (cases "re_search_pages s") auto

lemma strip_prefix_append: "strip_prefix p (p @ r) = Some r"
  by (simp add: strip_prefix_def)

lemma space_not_digit: "is_digit c \<Longrightarrow> \<not> is_space c"
  by (auto simp: is_digit_def is_space_def Let_def)

lemma match_pages_at_complete:
  assumes "ws \<noteq> []" "list_all is_space ws" "ds \<noteq> []" "list_all is_digit ds"
  shows "match_pages_at (''Pages:'' @ ws @ ds @ b) \<noteq> None"
proof -
  obtain d ds' where ds: "ds = d # ds'"
    using assms(3) by (cases ds) auto
  with assms(4) have d: "is_digit d" "\<not> is_space d"
    by (auto simp: space_not_digit)
  have tw: "takeWhile is_space (ws @ ds @ b) = ws"
    using assms(2) d by (simp add: ds list_all_iff)
  have dw: "dropWhile is_space (ws @ ds @ b) = ds @ b"
    using assms(2) d by (simp add: ds list_all_iff)
  have "takeWhile is_digit (ds @ b) \<noteq> []"
    using d by (simp add: ds)
  with tw dw assms(1) show ?thesis
    using strip_prefix_append [of "''Pages:''" "ws @ ds @ b"]
    by (simp add: match_pages_at_def Let_def)
qed

lemma re_search_pages_complete: "has_pages_line s \<Longrightarrow> re_search_pages s \<noteq> None"
proof -
  assume "has_pages_line s"
  then obtain a ws ds b where s: "s = a @ ''Pages:'' @ ws @ ds @ b"
    and h: "ws \<noteq> []" "list_all is_space ws" "ds \<noteq> []" "list_all is_digit ds"
    unfolding has_pages_line_def by blast
  have "re_search_pages (a @ ''Pages:'' @ ws @ ds @ b) \<noteq> None"
  proof (induction a)
    case Nil
    from match_pages_at_complete [OF h, of b]
    obtain r where "match_pages_at (''Pages:'' @ ws @ ds @ b) = Some r"
      by auto
    then show ?case
      by simp
  next
    case (Cons c a)
    then show ?case
      by (simp split: option.splits)
  qed
  with s show ?thesis
    by simp
qed

text \<open>The matcher decides the description: it finds a match exactly when there is one.\<close>

lemma re_search_pages_iff: "re_search_pages s = None \<longleftrightarrow> \<not> has_pages_line s"
  using re_search_pages_None re_search_pages_complete by blast



section \<open>Normalizer: what the relative-date step can do\<close>

lemma isoformat_nonempty: "isoformat d \<noteq> []"
  by (simp add: isoformat_def)

lemma add_relative_due_by_cases:
  assumes "add_relative_due_by G L row = Inr w"
  shows "w = row \<or>
         (\<exists>d. w = row\<lparr>due_by := PStr (isoformat d)\<rparr> \<and> \<not> truthy (due_by row) \<and>
               truthy (timeframe row) \<and> truthy (report_date row))"
  using assms
  by (auto simp: add_relative_due_by_def Let_def split: if_splits sum.splits option.splits prod.splits)

lemma add_relative_due_by_unbound:
  "''dtp'' \<notin> set G \<Longrightarrow> add_relative_due_by G L row = Inr row"
  by (simp add: add_relative_due_by_def dtp_parse_date_def lookup_global_def Let_def)

lemma dtp_not_bound: "''dtp'' \<notin> set module_globals"
  by (simp add: module_globals_def)

lemma relativedelta_not_bound: "''relativedelta'' \<notin> set module_globals"
  by (simp add: module_globals_def)

lemma add_relative_due_by_fixed:
  assumes "add_relative_due_by G L row = Inr w"
  shows "add_relative_due_by G L w = Inr w"
proof -
  from add_relative_due_by_cases [OF assms] show ?thesis
  proof
    assume "w = row"
    with assms show ?thesis by simp
  next
    assume "\<exists>d. w = row\<lparr>due_by := PStr (isoformat d)\<rparr> \<and> \<not> truthy (due_by row) \<and>
               truthy (timeframe row) \<and> truthy (report_date row)"
    then obtain d where "w = row\<lparr>due_by := PStr (isoformat d)\<rparr>"
      by blast
    then have "truthy (due_by w)"
      by (simp add: isoformat_nonempty)
    then show ?thesis
      by (simp add: add_relative_due_by_def)
  qed
qed

text \<open>The row that \<^verbatim>\<open>normalize_row\<close> hands to the relative-date step.\<close>

lemma normalize_row_Inr:
  assumes "normalize_row G L (PDict kvs) pdf pg = Inr w"
  shows "\<exists>prio conf.
           py_lower (py_or (dict_get kvs ''priority'') (PStr ''low'')) = Inr prio \<and>
           py_float L (py_or (dict_get kvs ''confidence'') (PFloat 0.5)) = Inr conf \<and>
           add_relative_due_by G L
             \<lparr>patient_id = dict_get kvs ''patient_id'',
              report_date = dict_get kvs ''report_date'',
              modality = py_or (dict_get kvs ''modality'') (PStr ''Other''),
              body_part = py_or (dict_get kvs ''body_part'') (PStr []),
              finding = py_or (dict_get kvs ''finding'') (PStr []),
              recommended_followup = dict_get kvs ''recommended_followup'',
              timeframe = dict_get kvs ''timeframe'',
              due_by = dict_get kvs ''due_by'',
              priority = prio,
              source_pdf = path_name pdf,
              page = pg,
              confidence = conf\<rparr> = Inr w"
  using assms by (auto simp: normalize_row_def split: sum.splits)

lemma normalize_row_fields:
  assumes "normalize_row G L (PDict kvs) pdf pg = Inr w"
  shows "patient_id w = dict_get kvs ''patient_id''"
    and "report_date w = dict_get kvs ''report_date''"
    and "modality w = py_or (dict_get kvs ''modality'') (PStr ''Other'')"
    and "body_part w = py_or (dict_get kvs ''body_part'') (PStr [])"
    and "finding w = py_or (dict_get kvs ''finding'') (PStr [])"
    and "recommended_followup w = dict_get kvs ''recommended_followup''"
    and "timeframe w = dict_get kvs ''timeframe''"
    and "py_lower (py_or (dict_get kvs ''priority'') (PStr ''low'')) = Inr (priority w)"
    and "source_pdf w = path_name pdf"
    and "page w = pg"
    and "py_float L (py_or (dict_get kvs ''confidence'') (PFloat 0.5)) = Inr (confidence w)"
    and "due_by w = dict_get kvs ''due_by'' \<or>
         (\<exists>d. due_by w = PStr (isoformat d) \<and> \<not> truthy (dict_get kvs ''due_by'') \<and>
               truthy (dict_get kvs ''timeframe'') \<and> truthy (dict_get kvs ''report_date''))"
proof -
  from normalize_row_Inr [OF assms] obtain prio conf row0 where
    p: "py_lower (py_or (dict_get kvs ''priority'') (PStr ''low'')) = Inr prio" and
    c: "py_float L (py_or (dict_get kvs ''confidence'') (PFloat 0.5)) = Inr conf" and
    r: "row0 = \<lparr>patient_id = dict_get kvs ''patient_id'',
              report_date = dict_get kvs ''report_date'',
              modality = py_or (dict_get kvs ''modality'') (PStr ''Other''),
              body_part = py_or (dict_get kvs ''body_part'') (PStr []),
              finding = py_or (dict_get kvs ''finding'') (PStr []),
              recommended_followup = dict_get kvs ''recommended_followup'',
              timeframe = dict_get kvs ''timeframe'',
              due_by = dict_get kvs ''due_by'',
              priority = prio,
              source_pdf = path_name pdf,
              page = pg,
              confidence = conf\<rparr>" and
    a: "add_relative_due_by G L row0 = Inr w"
    by blast
  from add_relative_due_by_cases [OF a] have
    w: "w = row0 \<or>
        (\<exists>d. w = row0\<lparr>due_by := PStr (isoformat d)\<rparr> \<and> \<not> truthy (due_by row0) \<and>
              truthy (timeframe row0) \<and> truthy (report_date row0))" .
  from w r show "patient_id w = dict_get kvs ''patient_id''" by auto
  from w r show "report_date w = dict_get kvs ''report_date''" by auto
  from w r show "modality w = py_or (dict_get kvs ''modality'') (PStr ''Other'')" by auto
  from w r show "body_part w = py_or (dict_get kvs ''body_part'') (PStr [])" by auto
  from w r show "finding w = py_or (dict_get kvs ''finding'') (PStr [])" by auto
  from w r show "recommended_followup w = dict_get kvs ''recommended_followup''" by auto
  from w r show "timeframe w = dict_get kvs ''timeframe''" by auto
  from w r p show "py_lower (py_or (dict_get kvs ''priority'') (PStr ''low'')) = Inr (priority w)" by auto
  from w r show "source_pdf w = path_name pdf" by auto
  from w r show "page w = pg" by auto
  from w r c show "py_float L (py_or (dict_get kvs ''confidence'') (PFloat 0.5)) = Inr (confidence w)" by auto
  from w r show "due_by w = dict_get kvs ''due_by'' \<or>
         (\<exists>d. due_by w = PStr (isoformat d) \<and> \<not> truthy (dict_get kvs ''due_by'') \<and>
               truthy (dict_get kvs ''timeframe'') \<and> truthy (dict_get kvs ''report_date''))"
    by auto
qed

section \<open>Claims about the normalizer\<close>

text \<open>
  Claim C1. As the module stands, the name \<^verbatim>\<open>dtp\<close> is bound nowhere, the parse of
  \<^verbatim>\<open>report_date\<close> raises \<^verbatim>\<open>NameError\<close> inside the \<^verbatim>\<open>try\<close>, and
  \<^verbatim>\<open>add_relative_due_by\<close> returns every row unchanged: it never sets \<^verbatim>\<open>due_by\<close>.
\<close>

theorem add_relative_due_by_never_sets:
  "add_relative_due_by module_globals L row = Inr row"
  by (rule add_relative_due_by_unbound) (rule dtp_not_bound)

theorem add_relative_due_by_never_sets_witness:
  "add_relative_due_by module_globals sample_lib
     \<lparr>patient_id = PNone, report_date = PStr ''2024-01-31'', modality = PStr ''CT'',
      body_part = PStr ''chest'', finding = PStr ''nodule'',
      recommended_followup = PStr ''repeat CT'', timeframe = PStr ''in 1 month'',
      due_by = PNone, priority = ''low'', source_pdf = ''a.pdf'', page = 1, confidence = 0.5\<rparr>
   = Inr \<lparr>patient_id = PNone, report_date = PStr ''2024-01-31'', modality = PStr ''CT'',
      body_part = PStr ''chest'', finding = PStr ''nodule'',
      recommended_followup = PStr ''repeat CT'', timeframe = PStr ''in 1 month'',
      due_by = PNone, priority = ''low'', source_pdf = ''a.pdf'', page = 1, confidence = 0.5\<rparr>"
  by (rule add_relative_due_by_never_sets)


text \<open>
  With the two names bound to dateutil, the same row gets the date that the claim names:
  one calendar month after 2024-01-31 is 2024-02-29.
\<close>

lemma parse_iso_date_example:
  "parse_iso_date ''2024-01-31'' = Some \<lparr>year = 2024, month = 1, day = 31\<rparr>"
  by (simp add: parse_iso_date_def int_of_digits_def digit_val_def is_digit_def
      days_in_month_def Let_def)

lemma re_search_in_example: "re_search_in ''in 1 month'' = Some (''1'', ''month'')"
  by (simp add: match_in_at_def unit_prefix_def lower_str_def lower_char_def is_space_def
      is_digit_def Let_def)

lemma int_of_digits_example: "int_of_digits ''1'' = 1"
  by (simp add: int_of_digits_def digit_val_def)

lemma add_months_example:
  "add_months \<lparr>year = 2024, month = 1, day = 31\<rparr> 1 = Inr \<lparr>year = 2024, month = 2, day = 29\<rparr>"
  by (simp add: add_months_def days_in_month_def is_leap_def Let_def)

lemma isoformat_example: "isoformat \<lparr>year = 2024, month = 2, day = 29\<rparr> = ''2024-02-29''"
  by (simp add: isoformat_def zero_pad_def digit_char_def char_of_eq_iff)

lemma add_relative_due_by_with_dateutil:
  "add_relative_due_by (''dtp'' # ''relativedelta'' # module_globals) sample_lib
     \<lparr>patient_id = PNone, report_date = PStr ''2024-01-31'', modality = PStr ''CT'',
      body_part = PStr ''chest'', finding = PStr ''nodule'',
      recommended_followup = PStr ''repeat CT'', timeframe = PStr ''in 1 month'',
      due_by = PNone, priority = ''low'', source_pdf = ''a.pdf'', page = 1, confidence = 0.5\<rparr>
   = Inr \<lparr>patient_id = PNone, report_date = PStr ''2024-01-31'', modality = PStr ''CT'',
      body_part = PStr ''chest'', finding = PStr ''nodule'',
      recommended_followup = PStr ''repeat CT'', timeframe = PStr ''in 1 month'',
      due_by = PStr ''2024-02-29'', priority = ''low'', source_pdf = ''a.pdf'', page = 1,
      confidence = 0.5\<rparr>"
  by (simp add: add_relative_due_by_def dtp_parse_date_def lookup_global_def
      plus_relativedelta_def sample_lib_def py_str_def dateutil_relativedelta_add_def
      parse_iso_date_example re_search_in_example add_months_example isoformat_example
      int_of_digits_example lower_str_def lower_char_def Let_def
      del: re_search_in.simps One_nat_def)





lemma lower_char_idem: "lower_char (lower_char c) = lower_char c"
  by (simp add: lower_char_def Let_def)

lemma lower_str_idem: "lower_str (lower_str s) = lower_str s"
  by (simp add: lower_str_def lower_char_idem)

lemma lower_str_Nil_iff: "lower_str s = [] \<longleftrightarrow> s = []"
  by (simp add: lower_str_def)

lemma lower_str_low: "lower_str ''low'' = ''low''"
  by (simp add: lower_str_def lower_char_def)

lemma py_lower_or_low:
  assumes "py_lower (py_or p (PStr ''low'')) = Inr q"
  shows "(\<not> truthy p \<longrightarrow> q = ''low'') \<and> (\<forall>s. p = PStr s \<longrightarrow> s \<noteq> [] \<longrightarrow> q = lower_str s) \<and>
         q \<noteq> [] \<and> lower_str q = q"
  using assms
  by (cases p)
    (auto simp: py_or_def py_lower_def lower_str_idem lower_str_Nil_iff lower_str_low
      split: if_splits)








text \<open>
  What \<^verbatim>\<open>float\<close> rejects is raised to the caller: a list or a dictionary is a
  \<^verbatim>\<open>TypeError\<close>, a string that is no number a \<^verbatim>\<open>ValueError\<close>.
\<close>

lemma normalize_row_confidence_raises:
  assumes "py_lower (py_or (dict_get kvs ''priority'') (PStr ''low'')) = Inr p"
  shows "dict_get kvs ''confidence'' = PList (x # xs) \<Longrightarrow>
           normalize_row G L (PDict kvs) pdf pg = Inl TypeError"
    and "dict_get kvs ''confidence'' = PDict (kv # rest) \<Longrightarrow>
           normalize_row G L (PDict kvs) pdf pg = Inl TypeError"
    and "dict_get kvs ''confidence'' = PStr (c # cs) \<Longrightarrow> float_of_str L (c # cs) = None \<Longrightarrow>
           normalize_row G L (PDict kvs) pdf pg = Inl ValueError"
  using assms by (simp_all add: normalize_row_def py_or_def py_float_def)



text \<open>
  Claim C8, as the code has it. Normalizing the emitted row again, with the same document
  and page, gives the same row whenever its confidence is not zero. A zero can only come
  from a text such as \<^verbatim>\<open>"0"\<close>, which \<^verbatim>\<open>float\<close> reads as 0.0; read again, 0.0 is
  falsy and becomes 0.5.
\<close>

theorem normalize_row_idempotent:
  assumes "normalize_row G L r pdf pg = Inr w"
    and "confidence w \<noteq> 0"
  shows "normalize_row G L (row_dict w) pdf pg = Inr w"
proof -
  from assms(1) obtain kvs where r: "r = PDict kvs"
    by (cases r) (simp_all add: normalize_row_def)
  note n = assms(1) [unfolded r]
  from normalize_row_Inr [OF n] obtain prio conf row0 where
    a: "add_relative_due_by G L row0 = Inr w"
    by blast
  have fixed: "add_relative_due_by G L w = Inr w"
    using a by (rule add_relative_due_by_fixed)
  have m: "truthy (modality w)" and b: "py_or (body_part w) (PStr []) = body_part w"
    and f: "py_or (finding w) (PStr []) = finding w"
    using normalize_row_fields(3,4,5) [OF n] by (auto simp: py_or_def)
  from py_lower_or_low [OF normalize_row_fields(8) [OF n]]
  have p: "priority w \<noteq> []" "lower_str (priority w) = priority w"
    by blast+
  have s: "source_pdf w = path_name pdf" and g: "page w = pg"
    using normalize_row_fields(9,10) [OF n] by simp_all
  have "normalize_row G L (row_dict w) pdf pg =
        add_relative_due_by G L
          \<lparr>patient_id = patient_id w, report_date = report_date w, modality = modality w,
           body_part = body_part w, finding = finding w,
           recommended_followup = recommended_followup w, timeframe = timeframe w,
           due_by = due_by w, priority = priority w, source_pdf = source_pdf w,
           page = page w, confidence = confidence w\<rparr>"
    using m b f p s g assms(2)
    by (simp add: normalize_row_def row_dict_def dict_get_def py_or_def py_lower_def py_float_def)
  also have "\<lparr>patient_id = patient_id w, report_date = report_date w, modality = modality w,
           body_part = body_part w, finding = finding w,
           recommended_followup = recommended_followup w, timeframe = timeframe w,
           due_by = due_by w, priority = priority w, source_pdf = source_pdf w,
           page = page w, confidence = confidence w\<rparr> = w"
    by simp
  finally show ?thesis
    using fixed by simp
qed

lemma normalize_row_idempotent_example:
  "normalize_row module_globals sample_lib
     (PDict [(''priority'', PStr ''High''), (''confidence'', PFloat 0.75)]) ''out/report.pdf'' 1
   = Inr \<lparr>patient_id = PNone, report_date = PNone, modality = PStr ''Other'',
      body_part = PStr [], finding = PStr [], recommended_followup = PNone,
      timeframe = PNone, due_by = PNone, priority = ''high'',
      source_pdf = ''report.pdf'', page = 1, confidence = 0.75\<rparr>"
  by (simp add: normalize_row_def dict_get_def py_or_def py_lower_def lower_str_def
      lower_char_def py_float_def path_name_def add_relative_due_by_def char_of_eq_iff)

theorem normalize_row_idempotent_witness:
  "normalize_row module_globals sample_lib
     (PDict [(''priority'', PStr ''High''), (''confidence'', PFloat 0.75)]) ''out/report.pdf'' 1
   = Inr \<lparr>patient_id = PNone, report_date = PNone, modality = PStr ''Other'',
      body_part = PStr [], finding = PStr [], recommended_followup = PNone,
      timeframe = PNone, due_by = PNone, priority = ''high'',
      source_pdf = ''report.pdf'', page = 1, confidence = 0.75\<rparr>
   \<and> (0.75 :: real) \<noteq> 0
   \<and> normalize_row module_globals sample_lib
       (row_dict \<lparr>patient_id = PNone, report_date = PNone, modality = PStr ''Other'',
          body_part = PStr [], finding = PStr [], recommended_followup = PNone,
          timeframe = PNone, due_by = PNone, priority = ''high'',
          source_pdf = ''report.pdf'', page = 1, confidence = 0.75\<rparr>) ''out/report.pdf'' 1
   = Inr \<lparr>patient_id = PNone, report_date = PNone, modality = PStr ''Other'',
      body_part = PStr [], finding = PStr [], recommended_followup = PNone,
      timeframe = PNone, due_by = PNone, priority = ''high'',
      source_pdf = ''report.pdf'', page = 1, confidence = 0.75\<rparr>"
  using normalize_row_idempotent [OF normalize_row_idempotent_example]
    normalize_row_idempotent_example
  by simp

text \<open>
  The claim as the spec states it fails: the candidate whose confidence is the text
  \<^verbatim>\<open>"0"\<close> is emitted with confidence 0.0, and that row is emitted with confidence 0.5.
\<close>

lemma float_of_decimal_zero: "float_of_decimal ''0'' = Some 0"
  by (simp add: float_of_decimal_def py_strip_def is_space_def is_digit_def int_of_digits_def
      digit_val_def Let_def)

theorem normalize_row_idempotent_counterexample:
  "normalize_row module_globals sample_lib (PDict [(''confidence'', PStr ''0'')]) ''report.pdf'' 1
   = Inr \<lparr>patient_id = PNone, report_date = PNone, modality = PStr ''Other'',
      body_part = PStr [], finding = PStr [], recommended_followup = PNone,
      timeframe = PNone, due_by = PNone, priority = ''low'',
      source_pdf = ''report.pdf'', page = 1, confidence = 0\<rparr>
   \<and> normalize_row module_globals sample_lib
       (row_dict \<lparr>patient_id = PNone, report_date = PNone, modality = PStr ''Other'',
          body_part = PStr [], finding = PStr [], recommended_followup = PNone,
          timeframe = PNone, due_by = PNone, priority = ''low'',
          source_pdf = ''report.pdf'', page = 1, confidence = 0\<rparr>) ''report.pdf'' 1
   = Inr \<lparr>patient_id = PNone, report_date = PNone, modality = PStr ''Other'',
      body_part = PStr [], finding = PStr [], recommended_followup = PNone,
      timeframe = PNone, due_by = PNone, priority = ''low'',
      source_pdf = ''report.pdf'', page = 1, confidence = 0.5\<rparr>"
  by (simp add: normalize_row_def row_dict_def dict_get_def py_or_def py_lower_def lower_str_def
      lower_char_def py_float_def path_name_def add_relative_due_by_def char_of_eq_iff
      sample_lib_def float_of_decimal_zero)

section \<open>Claims about the page materializer\<close>


lemma extract_short_text:
  assumes "run (pdftotext_cmd pdf p) = Inr txt"
    and "length (py_strip txt) < 180"
    and "base = path_join tmp (path_stem pdf @ ''-p'' @ str_int p)"
    and "run (pdftoppm_cmd pdf p base) = Inr png"
    and "run [''tesseract'', base @ ''-1.png'', ''stdout''] = Inr ocr"
  shows "extract_page_text_or_image run tmp pdf p =
           ([pdftotext_cmd pdf p, pdftoppm_cmd pdf p base, [''tesseract'', base @ ''-1.png'', ''stdout'']],
            Inr (if 0 < length (py_strip ocr) then ocr else [], Some (base @ ''-1.png'')))"
  using assms by (simp add: extract_page_text_or_image_def Let_def)

lemma pdftotext_cmd_hd: "hd (pdftotext_cmd pdf p) = ''pdftotext''"
  by (simp add: pdftotext_cmd_def)

lemma pdftoppm_cmd_hd: "hd (pdftoppm_cmd pdf p base) = ''pdftoppm''"
  by (simp add: pdftoppm_cmd_def)








section \<open>Claims about malformed model output\<close>

lemma safe_json_loads_strict: "json_loads L s = Some v \<Longrightarrow> safe_json_loads L s = v"
  by (simp add: safe_json_loads_def)

lemma safe_json_loads_recovered:
  "json_loads L s = None \<Longrightarrow> re_search_brackets s = Some g \<Longrightarrow> json_loads L g = Some v \<Longrightarrow>
   safe_json_loads L s = v"
  by (simp add: safe_json_loads_def)















section \<open>Claims about the result table\<close>

lemma is_digit_digit_char: "n < 10 \<Longrightarrow> is_digit (digit_char n)"
  by (simp add: is_digit_def digit_char_def)

text \<open>The confidence is written with exactly two digits after the point.\<close>

lemma format_2f_two_decimals:
  "\<exists>ip a b. format_2f x = ip @ ''.'' @ [a, b] \<and> is_digit a \<and> is_digit b"
proof -
  obtain q where "format_2f x = ((if x < 0 then ''-'' else []) @ str_nat (q div 100)) @ ''.'' @
          [digit_char (q div 10 mod 10), digit_char (q mod 10)]"
    unfolding format_2f_def Let_def append_assoc by blast
  moreover have "is_digit (digit_char (q div 10 mod 10))" "is_digit (digit_char (q mod 10))"
    by (simp_all add: is_digit_digit_char)
  ultimately show ?thesis
    by blast
qed

text \<open>
  Every record has the twelve columns in the order of the specification, and appending
  keeps what the file held: the old text is a prefix of the new.
\<close>

lemma row_fields_columns:
  "length (row_fields L r) = length header_fields"
  "row_fields L r ! 8 = priority r"
  "row_fields L r ! 9 = source_pdf r"
  "row_fields L r ! 10 = str_int (page r)"
  "row_fields L r ! 11 = format_2f (confidence r)"
  by (simp_all add: row_fields_def header_fields_def)

lemma append_rows_keeps_old:
  "\<exists>new. append_rows L (Some old) rows = Some (old @ new)"
  by (simp add: append_rows_def)

lemma append_rows_twice:
  "append_rows L (append_rows L file rows1) rows2 = append_rows L file (rows1 @ rows2)"
  by (simp add: append_rows_def)

lemma format_2f_half: "format_2f (1 / 2) = ''0.50''"
  by (simp add: format_2f_def digit_char_def char_of_eq_iff Let_def)

lemma str_int_three: "str_int 3 = ''3''"
  by (simp add: str_int_def digit_char_def char_of_eq_iff)

lemma append_rows_example:
  "append_rows sample_lib None
     [\<lparr>patient_id = PStr ''P1'', report_date = PStr ''2024-01-31'', modality = PStr ''CT'',
       body_part = PStr ''chest'', finding = PStr ''nodule'',
       recommended_followup = PStr ''repeat CT'', timeframe = PStr ''in 1 month'',
       due_by = PNone, priority = ''low'', source_pdf = ''a.pdf'', page = 3,
       confidence = 1 / 2\<rparr>]
   = Some (''P1,2024-01-31,CT,chest,nodule,repeat CT,in 1 month,,low,a.pdf,3,0.50'' @
           [CHR 0x0D, CHR 0x0A])"
  by (simp add: append_rows_def row_fields_def csv_record_def csv_field_def py_str_def py_or_def
      format_2f_half str_int_three)

text \<open>
  Claim C9. No branch of \<^verbatim>\<open>append_rows\<close> writes a header record: a table that is
  created by the call holds the data records of the call and nothing else, and it is empty
  when the call has no rows. On first creation with one row the file is that row's
  record; the header record that the claim promises is absent.
\<close>

theorem append_rows_first_creation:
  "append_rows L None rows = Some (concat (map (\<lambda>r. csv_record (row_fields L r)) rows))
   \<and> append_rows L None [] = Some []
   \<and> append_rows sample_lib None
       [\<lparr>patient_id = PStr ''P1'', report_date = PStr ''2024-01-31'', modality = PStr ''CT'',
         body_part = PStr ''chest'', finding = PStr ''nodule'',
         recommended_followup = PStr ''repeat CT'', timeframe = PStr ''in 1 month'',
         due_by = PNone, priority = ''low'', source_pdf = ''a.pdf'', page = 3,
         confidence = 1 / 2\<rparr>]
     = Some (''P1,2024-01-31,CT,chest,nodule,repeat CT,in 1 month,,low,a.pdf,3,0.50'' @
             [CHR 0x0D, CHR 0x0A])"
  by (simp add: append_rows_example) (simp add: append_rows_def)

section \<open>Claims about the rollup\<close>

lemma within_30_unbound: "''dtp'' \<notin> set G \<Longrightarrow> within_30 G L today x = False"
  by (simp add: within_30_def dtp_parse_date_def lookup_global_def)

text \<open>
  With \<^verbatim>\<open>dtp\<close> bound, the test is the inclusive window of the specification: the date
  parses and lies between 365 days before today and 30 days after it.
\<close>

lemma within_30_bound:
  assumes "''dtp'' \<in> set G"
  shows "within_30 G L today x \<longleftrightarrow>
         (\<exists>d. dateutil_parse L (py_str L x) = Some d \<and>
              - 365 \<le> toordinal d - toordinal today \<and> toordinal d - toordinal today \<le> 30)"
  using assms
  by (auto simp: within_30_def dtp_parse_date_def lookup_global_def Let_def split: option.splits)

text \<open>
  Claim C2. As the module stands, \<^verbatim>\<open>dtp\<close> is unbound, so \<^verbatim>\<open>within_30\<close> catches a
  \<^verbatim>\<open>NameError\<close> for every cell and answers \<^verbatim>\<open>False\<close>: the statistic
  \<^verbatim>\<open>due_within_30\<close> is 0 for every table, whatever dates its rows hold.
\<close>

theorem due_within_30_always_zero:
  "due_within_30 (aggregate_dashboard module_globals L today read_csv) = 0"
proof -
  have "filter (within_30 module_globals L today) xs = []" for xs
    by (simp add: within_30_unbound module_globals_def)
  then show ?thesis
    by (cases read_csv) (simp_all add: aggregate_dashboard_def)
qed

theorem due_within_30_always_zero_witness:
  "due_within_30
     (aggregate_dashboard module_globals sample_lib \<lparr>year = 2024, month = 6, day = 15\<rparr>
        (Inr \<lparr>columns = [''finding'', ''due_by'', ''priority'', ''modality''],
              cells = [[PStr ''nodule'', PStr ''2024-06-15'', PStr ''low'', PStr ''CT'']]\<rparr>)) = 0"
  by (rule due_within_30_always_zero)

text \<open>The same table with \<^verbatim>\<open>dtp\<close> bound to dateutil counts its one row, due today.\<close>

lemma parse_iso_date_today:
  "parse_iso_date ''2024-06-15'' = Some \<lparr>year = 2024, month = 6, day = 15\<rparr>"
  by (simp add: parse_iso_date_def int_of_digits_def digit_val_def is_digit_def
      days_in_month_def Let_def)

lemma due_within_30_with_dateutil:
  "due_within_30
     (aggregate_dashboard (''dtp'' # module_globals) sample_lib \<lparr>year = 2024, month = 6, day = 15\<rparr>
        (Inr \<lparr>columns = [''finding'', ''due_by'', ''priority'', ''modality''],
              cells = [[PStr ''nodule'', PStr ''2024-06-15'', PStr ''low'', PStr ''CT'']]\<rparr>)) = 1"
  by (simp add: aggregate_dashboard_def column_def within_30_def dtp_parse_date_def
      lookup_global_def sample_lib_def py_str_def parse_iso_date_today Let_def)

text \<open>Rows are counted in the total whether or not their date parses.\<close>

lemma total_rows_counts_all:
  "total_rows (aggregate_dashboard G L today (Inr df)) = length (cells df)"
  by (simp add: aggregate_dashboard_def)

end
